theory Spec2Isabelle
  imports Main
begin

section \<open>Data model (src/components/checklist-item.tsx, src/components/note.tsx)\<close>

text \<open>
  A property that TypeScript declares as \<^verbatim>\<open>f?: T | null\<close> has three states: the key is
  missing (\<^verbatim>\<open>undefined\<close>), it is \<^verbatim>\<open>null\<close>, or it holds a value. The same three states
  describe a key of a JSON request body.
\<close>

datatype 'a nullable = Absent | Null | Val 'a

text \<open>
  \<^verbatim>\<open>interface ChecklistItem { id: string; content: string; checked: boolean; order: number }\<close>.
  The field \<^verbatim>\<open>order\<close> is a position counter; it is modelled as an integer.
\<close>

record ChecklistItem =
  item_id :: string
  content :: string
  checked :: bool
  order :: int

text \<open>
  \<^verbatim>\<open>interface Note\<close>. The handlers read \<^verbatim>\<open>id\<close>, \<^verbatim>\<open>boardId\<close>, \<^verbatim>\<open>archivedAt\<close> and
  \<^verbatim>\<open>checklistItems\<close>; every other field (\<^verbatim>\<open>user\<close>, \<^verbatim>\<open>board\<close>, \<^verbatim>\<open>x\<close>, \<^verbatim>\<open>y\<close>,
  \<^verbatim>\<open>width\<close>, \<^verbatim>\<open>height\<close>) is only copied by the spread \<^verbatim>\<open>...note\<close> and is gathered in
  \<open>other\<close>. \<^verbatim>\<open>checklistItems?: ChecklistItem[]\<close> is optional: \<open>None\<close> is \<^verbatim>\<open>undefined\<close>.
\<close>

record 'x Note =
  note_id :: string
  color :: string
  archivedAt :: "string nullable"
  createdAt :: string
  updatedAt :: string
  checklistItems :: "ChecklistItem list option"
  boardId :: string
  other :: 'x

text \<open>
  The body handed to \<^verbatim>\<open>JSON.stringify\<close>, and the request: method \<^verbatim>\<open>PUT\<close> on
  \<^verbatim>\<open>/api/boards/${url_board}/notes/${url_note}\<close>.
\<close>

record payload =
  body_checklistItems :: "ChecklistItem list"
  body_archivedAt :: "string nullable"

record request =
  url_board :: string
  url_note :: string
  body :: payload

text \<open>
  What the environment answers to one \<^verbatim>\<open>fetch\<close>: the promise rejects (network-level
  failure), or it resolves with a response whose \<^verbatim>\<open>ok\<close> flag tells a 2xx status and whose
  \<^verbatim>\<open>json()\<close> yields \<^verbatim>\<open>{ note }\<close> (\<open>None\<close>: \<^verbatim>\<open>json()\<close> itself rejects).
\<close>

record 'x response =
  ok :: bool
  json_note :: "'x Note option"

datatype 'x fetch_outcome = Rejects | Resolves "'x response"

text \<open>
  The observable effects of one handler call, in program order. \<open>OnUpdate n\<close> is the
  evaluation of \<^verbatim>\<open>onUpdate?.(n)\<close>, \<open>Fetch r\<close> the call of \<^verbatim>\<open>fetch\<close>, \<open>ConsoleError m\<close> the
  call of \<^verbatim>\<open>console.error\<close> with first argument \<open>m\<close>.
\<close>

datatype 'x effect = OnUpdate "'x Note" | Fetch request | ConsoleError string

text \<open>
  The owner of the note keeps the last note it was handed through \<^verbatim>\<open>onUpdate\<close>.
\<close>

fun local_state :: "'x Note \<Rightarrow> 'x effect list \<Rightarrow> 'x Note" where
  "local_state n [] = n"
| "local_state n (OnUpdate u # es) = local_state u es"
| "local_state n (Fetch r # es) = local_state n es"
| "local_state n (ConsoleError m # es) = local_state n es"

fun fetches :: "'x effect list \<Rightarrow> request list" where
  "fetches [] = []"
| "fetches (Fetch r # es) = r # fetches es"
| "fetches (OnUpdate u # es) = fetches es"
| "fetches (ConsoleError m # es) = fetches es"

text \<open>
  The values the handlers read from the clock and the random generator:
  \<^verbatim>\<open>new Date().toISOString()\<close>, \<^verbatim>\<open>Date.now()\<close> (printed) and
  \<^verbatim>\<open>Math.random().toString(36).substr(2, 9)\<close>.
\<close>

record env =
  iso_now :: string
  date_now :: string
  random_suffix :: string

section \<open>Array helpers of the JavaScript library\<close>

text \<open>\<^verbatim>\<open>Array.prototype.findIndex\<close>: the first index whose element satisfies \<open>P\<close>, else \<open>-1\<close>.\<close>

fun findIndex :: "('a \<Rightarrow> bool) \<Rightarrow> 'a list \<Rightarrow> int" where
  "findIndex P [] = -1"
| "findIndex P (x # xs) =
     (if P x then 0 else (let r = findIndex P xs in if r = -1 then -1 else r + 1))"

text \<open>\<^verbatim>\<open>Array.prototype.lastIndexOf\<close>: the last index holding \<open>v\<close>, else \<open>-1\<close>.\<close>

fun lastIndexOf :: "'a list \<Rightarrow> 'a \<Rightarrow> int" where
  "lastIndexOf [] v = -1"
| "lastIndexOf (x # xs) v =
     (let r = lastIndexOf xs v in if r \<noteq> -1 then r + 1 else if x = v then 0 else -1)"

text \<open>\<^verbatim>\<open>xs.map((item, index) => ({ ...item, order: index }))\<close>, counting from \<open>k\<close>.\<close>

fun reindex_from :: "int \<Rightarrow> ChecklistItem list \<Rightarrow> ChecklistItem list" where
  "reindex_from k [] = []"
| "reindex_from k (x # xs) = x\<lparr>order := k\<rparr> # reindex_from (k + 1) xs"

section \<open>The handlers of the note component\<close>

definition handleToggleChecklistItem ::
  "'x Note \<Rightarrow> bool \<Rightarrow> string \<Rightarrow> 'x fetch_outcome \<Rightarrow> 'x effect list" where
  "handleToggleChecklistItem n syncDB itemId outcome =
     (case checklistItems n of
        None \<Rightarrow> []
      | Some items \<Rightarrow>
          let updatedItems =
                map (\<lambda>item. if item_id item = itemId
                              then item\<lparr>checked := \<not> checked item\<rparr> else item) items;
              sortedItems = sort_key order updatedItems;
              optimisticNote = n\<lparr>checklistItems := Some sortedItems\<rparr>
          in OnUpdate optimisticNote #
             (if syncDB then
                Fetch \<lparr>url_board = boardId n, url_note = note_id n,
                       body = \<lparr>body_checklistItems = sortedItems,
                                body_archivedAt = Absent\<rparr>\<rparr> #
                (case outcome of
                   Rejects \<Rightarrow> [ConsoleError ''Error toggling checklist item:'', OnUpdate n]
                 | Resolves response \<Rightarrow>
                     if \<not> ok response then
                       [ConsoleError ''Server error, reverting optimistic update'', OnUpdate n]
                     else
                       (case json_note response of
                          None \<Rightarrow> [ConsoleError ''Error toggling checklist item:'', OnUpdate n]
                        | Some updatedNote \<Rightarrow> [OnUpdate updatedNote]))
              else []))"

definition handleDeleteChecklistItem ::
  "'x Note \<Rightarrow> bool \<Rightarrow> string \<Rightarrow> 'x fetch_outcome \<Rightarrow> 'x effect list" where
  "handleDeleteChecklistItem n syncDB itemId outcome =
     (case checklistItems n of
        None \<Rightarrow> []
      | Some items \<Rightarrow>
          let updatedItems = filter (\<lambda>item. item_id item \<noteq> itemId) items;
              optimisticNote = n\<lparr>checklistItems := Some updatedItems\<rparr>
          in OnUpdate optimisticNote #
             (if syncDB then
                Fetch \<lparr>url_board = boardId n, url_note = note_id n,
                       body = \<lparr>body_checklistItems = updatedItems,
                                body_archivedAt = Absent\<rparr>\<rparr> #
                (case outcome of
                   Rejects \<Rightarrow> [ConsoleError ''Error deleting checklist item:'']
                 | Resolves response \<Rightarrow>
                     if ok response then
                       (case json_note response of
                          None \<Rightarrow> [ConsoleError ''Error deleting checklist item:'']
                        | Some updatedNote \<Rightarrow> [OnUpdate updatedNote])
                     else [OnUpdate n])
              else []))"

definition handleEditChecklistItem ::
  "'x Note \<Rightarrow> bool \<Rightarrow> string \<Rightarrow> string \<Rightarrow> 'x fetch_outcome \<Rightarrow> 'x effect list" where
  "handleEditChecklistItem n syncDB itemId newContent outcome =
     (case checklistItems n of
        None \<Rightarrow> []
      | Some items \<Rightarrow>
          let updatedItems =
                map (\<lambda>item. if item_id item = itemId
                              then item\<lparr>content := newContent\<rparr> else item) items;
              optimisticNote = n\<lparr>checklistItems := Some updatedItems\<rparr>
          in OnUpdate optimisticNote #
             (if syncDB then
                Fetch \<lparr>url_board = boardId n, url_note = note_id n,
                       body = \<lparr>body_checklistItems = updatedItems,
                                body_archivedAt = Absent\<rparr>\<rparr> #
                (case outcome of
                   Rejects \<Rightarrow> [ConsoleError ''Error editing checklist item:'']
                 | Resolves response \<Rightarrow>
                     if ok response then
                       (case json_note response of
                          None \<Rightarrow> [ConsoleError ''Error editing checklist item:'']
                        | Some updatedNote \<Rightarrow> [OnUpdate updatedNote])
                     else [OnUpdate n])
              else []))"

text \<open>
  The guard of \<^verbatim>\<open>handleReorderChecklistItems\<close>
  (\<^verbatim>\<open>// Disallow unchecked items to be after checked items\<close>).
\<close>

definition reorder_rejected :: "ChecklistItem list \<Rightarrow> bool" where
  "reorder_rejected newItems =
     (let firstCheckedIndex = findIndex checked newItems;
          lastUncheckedIndex = lastIndexOf (map checked newItems) False
      in firstCheckedIndex \<noteq> -1 \<and> lastUncheckedIndex \<noteq> -1
         \<and> lastUncheckedIndex > firstCheckedIndex)"

definition handleReorderChecklistItems ::
  "'x Note \<Rightarrow> bool \<Rightarrow> env \<Rightarrow> string \<Rightarrow> ChecklistItem list \<Rightarrow> 'x fetch_outcome
    \<Rightarrow> 'x effect list" where
  "handleReorderChecklistItems n syncDB e noteId newItems outcome =
     (case checklistItems n of
        None \<Rightarrow> []
      | Some _ \<Rightarrow>
          let allItemsChecked = list_all checked newItems in
          if reorder_rejected newItems then []
          else
            let updatedItems = reindex_from 0 newItems;
                optimisticNote = n\<lparr>checklistItems := Some updatedItems\<rparr>
            in OnUpdate optimisticNote #
               (if syncDB then
                  Fetch \<lparr>url_board = boardId n, url_note = noteId,
                         body = \<lparr>body_checklistItems = updatedItems,
                                  body_archivedAt =
                                    (if allItemsChecked then Val (iso_now e) else Null)\<rparr>\<rparr> #
                  (case outcome of
                     Rejects \<Rightarrow> [ConsoleError ''Failed to reorder checklist item:'']
                   | Resolves response \<Rightarrow>
                       if ok response then
                         (case json_note response of
                            None \<Rightarrow> [ConsoleError ''Failed to reorder checklist item:'']
                          | Some updatedNote \<Rightarrow> [OnUpdate updatedNote])
                       else [OnUpdate n])
                else []))"

text \<open>\<^verbatim>\<open>note.checklistItems || []\<close>: an array, even an empty one, is truthy.\<close>

definition items_or_empty :: "'x Note \<Rightarrow> ChecklistItem list" where
  "items_or_empty n = (case checklistItems n of None \<Rightarrow> [] | Some items \<Rightarrow> items)"

definition handleAddChecklistItem ::
  "'x Note \<Rightarrow> bool \<Rightarrow> env \<Rightarrow> string \<Rightarrow> 'x fetch_outcome \<Rightarrow> 'x effect list" where
  "handleAddChecklistItem n syncDB e newContent outcome =
     (let newItem =
            \<lparr>item_id = ''item_'' @ date_now e @ ''_'' @ random_suffix e,
             content = newContent,
             checked = False,
             order = (case checklistItems n of
                        None \<Rightarrow> 0 | Some items \<Rightarrow> int (length items))\<rparr>;
          allItemsChecked = list_all checked (items_or_empty n @ [newItem]);
          optimisticNote =
            n\<lparr>checklistItems := Some (items_or_empty n @ [newItem]),
              archivedAt := (if allItemsChecked then Val (iso_now e) else Null)\<rparr>
      in OnUpdate optimisticNote #
         (if syncDB then
            Fetch \<lparr>url_board = boardId n, url_note = note_id n,
                   body = \<lparr>body_checklistItems = items_or_empty n @ [newItem],
                            body_archivedAt = Absent\<rparr>\<rparr> #
            (case outcome of
               Rejects \<Rightarrow> [ConsoleError ''Error adding checklist item:'']
             | Resolves response \<Rightarrow>
                 if ok response then
                   (case json_note response of
                      None \<Rightarrow> [ConsoleError ''Error adding checklist item:'']
                    | Some updatedNote \<Rightarrow> [OnUpdate updatedNote])
                 else [OnUpdate n])
          else []))"

section \<open>The key and blur handlers of the checklist item component\<close>

text \<open>
  \<^verbatim>\<open>String.prototype.trim\<close> strips white space and line terminators from both ends. A
  \<open>char\<close> stands for one code unit below 256; the white space there is TAB, LF, VT, FF,
  CR, SPACE and NBSP.
\<close>

definition js_whitespace :: "char \<Rightarrow> bool" where
  "js_whitespace c = (of_char c \<in> {9, 10, 11, 12, 13, 32, 160 :: nat})"

definition trim :: "string \<Rightarrow> string" where
  "trim s = rev (dropWhile js_whitespace (rev (dropWhile js_whitespace s)))"

text \<open>
  The props that \<^verbatim>\<open>handleKeyDown\<close> and \<^verbatim>\<open>handleBlur\<close> read. \<open>editContent = None\<close> is
  \<^verbatim>\<open>undefined\<close>; \<open>has_onEdit\<close> and \<open>has_onCreateItem\<close> tell whether the callbacks that
  the handlers test for truthiness were passed.
\<close>

record item_props =
  item :: ChecklistItem
  isEditing :: bool
  editContent :: "string option"
  isNewItem :: bool
  has_onEdit :: bool
  has_onCreateItem :: bool

record key_event =
  key :: string
  shiftKey :: bool

text \<open>
  The calls a handler makes, in program order: \<^verbatim>\<open>e.preventDefault()\<close>,
  \<^verbatim>\<open>onCreateItem(c)\<close>, \<^verbatim>\<open>target.blur()\<close>, \<^verbatim>\<open>setTimeout(() => adjustTextareaHeight(target), 0)\<close>,
  \<^verbatim>\<open>onStopEdit?.()\<close>, \<^verbatim>\<open>onDelete?.(id)\<close> and \<^verbatim>\<open>onEdit(id, c)\<close>.
\<close>

datatype ui_call =
    PreventDefault
  | OnCreateItem string
  | TargetBlur
  | AdjustHeightLater
  | OnStopEdit
  | OnDelete string
  | OnEdit string string

text \<open>\<^verbatim>\<open>editContent?.trim()\<close> is truthy: defined and not empty after trimming.\<close>

definition trimmed_truthy :: "string option \<Rightarrow> bool" where
  "trimmed_truthy ec = (case ec of None \<Rightarrow> False | Some s \<Rightarrow> trim s \<noteq> [])"

definition handleKeyDown :: "item_props \<Rightarrow> key_event \<Rightarrow> ui_call list" where
  "handleKeyDown p e =
     (if key e = ''Enter'' \<and> \<not> shiftKey e then
        PreventDefault #
        (if isNewItem p \<and> trimmed_truthy (editContent p) \<and> has_onCreateItem p
         then [OnCreateItem (trim (the (editContent p)))]
         else [TargetBlur])
      else [])
     @ (if key e = ''Enter'' \<and> shiftKey e then [AdjustHeightLater] else [])
     @ (if key e = ''Escape'' then [OnStopEdit] else [])
     @ (if key e = ''Backspace'' \<and> map_option trim (editContent p) = Some []
        then [PreventDefault, OnDelete (item_id (item p))]
        else [])"

text \<open>
  \<^verbatim>\<open>handleBlur\<close> reads and clears \<^verbatim>\<open>deletingRef.current\<close>; the result pairs the calls
  with the new value of the ref.
\<close>

definition handleBlur :: "item_props \<Rightarrow> bool \<Rightarrow> ui_call list \<times> bool" where
  "handleBlur p deleting =
     (if deleting then ([], False)
      else
        ((if isNewItem p \<and> trimmed_truthy (editContent p) \<and> has_onCreateItem p
          then [OnCreateItem (trim (the (editContent p)))]
          else if isEditing p \<and> editContent p \<noteq> None \<and> has_onEdit p
          then [OnEdit (item_id (item p)) (the (editContent p))]
          else [])
         @ [OnStopEdit], deleting))"

text \<open>\<open>first_update\<close> reads the optimistic note off a trace: the first note handed to
  \<^verbatim>\<open>onUpdate\<close>.\<close>

fun first_update :: "'x effect list \<Rightarrow> 'x Note option" where
  "first_update [] = None"
| "first_update (OnUpdate u # es) = Some u"
| "first_update (Fetch r # es) = first_update es"
| "first_update (ConsoleError m # es) = first_update es"

section \<open>The archive rule in the words of the specification\<close>

text \<open>
  Section 3 of the specification: \<^verbatim>\<open>archivedAt\<close> is non-null if and only if the note has
  at least one checklist item and all items are checked.
\<close>

definition spec_archive_invariant :: "'x Note \<Rightarrow> bool" where
  "spec_archive_invariant n =
     ((case archivedAt n of Val t \<Rightarrow> True | Null \<Rightarrow> False | Absent \<Rightarrow> False) =
      (case checklistItems n of
         None \<Rightarrow> False
       | Some items \<Rightarrow> items \<noteq> [] \<and> list_all checked items))"

section \<open>Concrete scenario\<close>

text \<open>
  The note of the specification's concrete scenario, a third item that is checked, notes
  holding these items, and fixed readings of the clock and the random generator.
\<close>

definition item_a :: ChecklistItem where
  "item_a = \<lparr>item_id = ''a'', content = ''x'', checked = False, order = 0\<rparr>"

definition item_b :: ChecklistItem where
  "item_b = \<lparr>item_id = ''b'', content = ''y'', checked = False, order = 1\<rparr>"

definition item_c :: ChecklistItem where
  "item_c = \<lparr>item_id = ''c'', content = ''z'', checked = True, order = 2\<rparr>"

definition note_ab :: "unit Note" where
  "note_ab = \<lparr>note_id = ''n1'', color = ''#fef3c7'', archivedAt = Null,
              createdAt = ''2025-01-01T00:00:00.000Z'', updatedAt = ''2025-01-01T00:00:00.000Z'',
              checklistItems = Some [item_a, item_b], boardId = ''b1'', other = ()\<rparr>"

definition note_abc :: "unit Note" where
  "note_abc = note_ab\<lparr>checklistItems := Some [item_a, item_b, item_c]\<rparr>"

definition note_c :: "unit Note" where
  "note_c = note_ab\<lparr>checklistItems := Some [item_c]\<rparr>"

text \<open>The same note after it was archived by hand (the Archive button of the board).\<close>

definition note_ab_archived :: "unit Note" where
  "note_ab_archived = note_ab\<lparr>archivedAt := Val ''2024-12-31T00:00:00.000Z''\<rparr>"

text \<open>The scenario note after both of its items were toggled (optimistic state).\<close>

definition note_ab_checked :: "unit Note" where
  "note_ab_checked =
     note_ab\<lparr>checklistItems := Some [item_a\<lparr>checked := True\<rparr>, item_b\<lparr>checked := True\<rparr>]\<rparr>"

definition env0 :: env where
  "env0 = \<lparr>iso_now = ''2025-01-02T00:00:00.000Z'', date_now = ''1735776000000'',
           random_suffix = ''k3j9x0q2m''\<rparr>"

section \<open>Facts about the array helpers\<close>

lemma findIndex_lower: "- 1 \<le> findIndex P xs"
  by (induction xs) (auto simp: Let_def)

lemma findIndex_absent_iff: "findIndex P xs = - 1 \<longleftrightarrow> (\<forall>x \<in> set xs. \<not> P x)"
proof (induction xs)
  case Nil
  show ?case by simp
next
  case (Cons x xs)
  from findIndex_lower [of P xs] have "findIndex P xs + 1 \<noteq> - 1" by arith
  with Cons show ?case by (auto simp: Let_def)
qed

lemma findIndex_hit:
  "findIndex P xs \<noteq> - 1 \<Longrightarrow>
     0 \<le> findIndex P xs \<and> nat (findIndex P xs) < length xs \<and> P (xs ! nat (findIndex P xs))"
proof (induction xs)
  case Nil
  then show ?case by simp
next
  case (Cons x xs)
  show ?case
  proof (cases "P x")
    case True
    then show ?thesis by simp
  next
    case False
    with Cons.prems have ne: "findIndex P xs \<noteq> - 1" by (auto simp: Let_def split: if_splits)
    with Cons.IH have ih: "0 \<le> findIndex P xs" "nat (findIndex P xs) < length xs"
      "P (xs ! nat (findIndex P xs))" by auto
    have eq: "findIndex P (x # xs) = findIndex P xs + 1" using False ne by (simp add: Let_def)
    have "nat (findIndex P xs + 1) = Suc (nat (findIndex P xs))" using ih(1) by arith
    with ih eq show ?thesis by simp
  qed
qed

lemma findIndex_least:
  "i < length xs \<Longrightarrow> P (xs ! i) \<Longrightarrow> findIndex P xs \<le> int i"
proof (induction xs arbitrary: i)
  case Nil
  then show ?case by simp
next
  case (Cons x xs)
  show ?case
  proof (cases i)
    case 0
    with Cons.prems show ?thesis by simp
  next
    case (Suc k)
    with Cons.prems have "k < length xs" "P (xs ! k)" by auto
    with Cons.IH have "findIndex P xs \<le> int k" by blast
    with Suc show ?thesis by (auto simp: Let_def)
  qed
qed

lemma lastIndexOf_lower: "- 1 \<le> lastIndexOf xs v"
  by (induction xs) (auto simp: Let_def)

lemma lastIndexOf_absent_iff: "lastIndexOf xs v = - 1 \<longleftrightarrow> v \<notin> set xs"
proof (induction xs)
  case Nil
  show ?case by simp
next
  case (Cons x xs)
  from lastIndexOf_lower [of xs v] have "lastIndexOf xs v + 1 \<noteq> - 1" by arith
  with Cons show ?case by (auto simp: Let_def)
qed

lemma lastIndexOf_hit:
  "lastIndexOf xs v \<noteq> - 1 \<Longrightarrow>
     0 \<le> lastIndexOf xs v \<and> nat (lastIndexOf xs v) < length xs \<and> xs ! nat (lastIndexOf xs v) = v"
proof (induction xs)
  case Nil
  then show ?case by simp
next
  case (Cons x xs)
  show ?case
  proof (cases "lastIndexOf xs v = - 1")
    case True
    with Cons.prems show ?thesis by (auto simp: Let_def split: if_splits)
  next
    case False
    with Cons.IH have ih: "0 \<le> lastIndexOf xs v" "nat (lastIndexOf xs v) < length xs"
      "xs ! nat (lastIndexOf xs v) = v" by auto
    have eq: "lastIndexOf (x # xs) v = lastIndexOf xs v + 1" using False by (simp add: Let_def)
    have "nat (lastIndexOf xs v + 1) = Suc (nat (lastIndexOf xs v))" using ih(1) by arith
    with ih eq show ?thesis by simp
  qed
qed

lemma lastIndexOf_greatest:
  "i < length xs \<Longrightarrow> xs ! i = v \<Longrightarrow> int i \<le> lastIndexOf xs v"
proof (induction xs arbitrary: i)
  case Nil
  then show ?case by simp
next
  case (Cons x xs)
  show ?case
  proof (cases i)
    case 0
    from lastIndexOf_lower [of xs v] have "0 \<le> lastIndexOf xs v + 1" by arith
    with 0 Cons.prems show ?thesis by (auto simp: Let_def)
  next
    case (Suc k)
    with Cons.prems have k: "k < length xs" "xs ! k = v" by auto
    with Cons.IH have le: "int k \<le> lastIndexOf xs v" by blast
    then have "lastIndexOf xs v \<noteq> - 1" by arith
    with le Suc show ?thesis by (simp add: Let_def)
  qed
qed

lemma reorder_rejected_inversion:
  "reorder_rejected xs \<longleftrightarrow>
     (\<exists>i j. i < j \<and> j < length xs \<and> checked (xs ! i) \<and> \<not> checked (xs ! j))"
proof
  assume r: "reorder_rejected xs"
  let ?f = "findIndex checked xs" and ?l = "lastIndexOf (map checked xs) False"
  from r have f: "?f \<noteq> - 1" and l: "?l \<noteq> - 1" and lt: "?f < ?l"
    by (auto simp: reorder_rejected_def Let_def)
  from findIndex_hit [OF f] have fh: "0 \<le> ?f" "checked (xs ! nat ?f)" by auto
  from lastIndexOf_hit [OF l] have lh: "nat ?l < length xs" "map checked xs ! nat ?l = False"
    by auto
  from lh have "\<not> checked (xs ! nat ?l)" by simp
  moreover from fh(1) lt have "nat ?f < nat ?l" by arith
  ultimately show "\<exists>i j. i < j \<and> j < length xs \<and> checked (xs ! i) \<and> \<not> checked (xs ! j)"
    using fh(2) lh(1) by blast
next
  assume "\<exists>i j. i < j \<and> j < length xs \<and> checked (xs ! i) \<and> \<not> checked (xs ! j)"
  then obtain i j where ij: "i < j" "j < length xs" "checked (xs ! i)" "\<not> checked (xs ! j)"
    by blast
  let ?f = "findIndex checked xs" and ?l = "lastIndexOf (map checked xs) False"
  from ij have i: "i < length xs" by simp
  from i ij(3) have f_le: "?f \<le> int i" by (rule findIndex_least)
  from ij have "j < length (map checked xs)" "map checked xs ! j = False" by simp_all
  then have l_ge: "int j \<le> ?l" by (rule lastIndexOf_greatest)
  from i ij(3) have "\<exists>x \<in> set xs. checked x" using nth_mem by blast
  then have f: "?f \<noteq> - 1" by (simp add: findIndex_absent_iff)
  from l_ge have l: "?l \<noteq> - 1" by arith
  from f_le l_ge ij(1) have "?f < ?l" by arith
  with f l show "reorder_rejected xs" by (simp add: reorder_rejected_def Let_def)
qed

lemma no_inversion_blocks:
  "(\<not> (\<exists>i j. i < j \<and> j < length bs \<and> bs ! i \<and> \<not> bs ! j)) \<longleftrightarrow>
     (\<exists>k m. bs = replicate k False @ replicate m True)"
proof
  assume "\<exists>k m. bs = replicate k False @ replicate m True"
  then obtain k m where bs: "bs = replicate k False @ replicate m True" by blast
  show "\<not> (\<exists>i j. i < j \<and> j < length bs \<and> bs ! i \<and> \<not> bs ! j)"
  proof
    assume "\<exists>i j. i < j \<and> j < length bs \<and> bs ! i \<and> \<not> bs ! j"
    then obtain i j where ij: "i < j" "j < length bs" "bs ! i" "\<not> bs ! j" by blast
    from ij(3) bs ij(1,2) have "k \<le> i" by (cases "i < k") (auto simp: nth_append)
    with ij(1) have "k \<le> j" by simp
    with ij(2,4) bs show False by (auto simp: nth_append)
  qed
next
  assume "\<not> (\<exists>i j. i < j \<and> j < length bs \<and> bs ! i \<and> \<not> bs ! j)"
  then show "\<exists>k m. bs = replicate k False @ replicate m True"
  proof (induction bs)
    case Nil
    have "[] = replicate 0 False @ replicate 0 True" by simp
    then show ?case by blast
  next
    case (Cons b bs)
    have tail: "\<not> (\<exists>i j. i < j \<and> j < length bs \<and> bs ! i \<and> \<not> bs ! j)"
    proof
      assume "\<exists>i j. i < j \<and> j < length bs \<and> bs ! i \<and> \<not> bs ! j"
      then obtain i j where "i < j" "j < length bs" "bs ! i" "\<not> bs ! j" by blast
      then have "Suc i < Suc j \<and> Suc j < length (b # bs) \<and> (b # bs) ! Suc i \<and> \<not> (b # bs) ! Suc j"
        by simp
      with Cons.prems show False by blast
    qed
    show ?case
    proof (cases b)
      case False
      from Cons.IH [OF tail] obtain k m where "bs = replicate k False @ replicate m True" by blast
      with False have "b # bs = replicate (Suc k) False @ replicate m True" by simp
      then show ?thesis by blast
    next
      case True
      have "\<forall>x \<in> set bs. x"
      proof
        fix x assume "x \<in> set bs"
        then obtain j where j: "j < length bs" "bs ! j = x" by (auto simp: in_set_conv_nth)
        show x
        proof (rule ccontr)
          assume "\<not> x"
          with j True have "0 < Suc j \<and> Suc j < length (b # bs) \<and> (b # bs) ! 0 \<and> \<not> (b # bs) ! Suc j"
            by simp
          with Cons.prems show False by blast
        qed
      qed
      then have "bs = replicate (length bs) True"
        by (induction bs) auto
      with True have "b # bs = replicate 0 False @ replicate (Suc (length bs)) True" by simp
      then show ?thesis by blast
    qed
  qed
qed

section \<open>The reorder guard\<close>

lemma reorder_accepts_blocks:
  "(\<not> reorder_rejected xs) \<longleftrightarrow>
     (\<exists>k m. map checked xs = replicate k False @ replicate m True)"
proof -
  have "reorder_rejected xs \<longleftrightarrow>
      (\<exists>i j. i < j \<and> j < length (map checked xs) \<and> map checked xs ! i \<and> \<not> map checked xs ! j)"
    unfolding reorder_rejected_inversion
    by (metis (no_types, lifting) length_map nth_map order.strict_trans)
  then show ?thesis using no_inversion_blocks [of "map checked xs"] by simp
qed

lemma reorder_no_effect_iff:
  "checklistItems n = Some cs \<Longrightarrow>
     handleReorderChecklistItems n syncDB e noteId newItems outcome = []
       \<longleftrightarrow> reorder_rejected newItems"
  by (simp add: handleReorderChecklistItems_def Let_def)

lemma reorder_no_checklist:
  "checklistItems n = None \<Longrightarrow>
     handleReorderChecklistItems n syncDB e noteId newItems outcome = []"
  by (simp add: handleReorderChecklistItems_def)

text \<open>
  Claim C9. The guard of \<^verbatim>\<open>handleReorderChecklistItems\<close> (a first checked index exists, a
  last unchecked index exists, and the latter is greater) holds exactly when some checked
  item stands before some unchecked item. Equivalently the guard lets a sequence pass
  exactly when its checked flags are a block of \<open>False\<close> followed by a block of \<open>True\<close>,
  either block possibly empty; and on a note that has a checklist the handler acts
  (produces an effect) on exactly those sequences.
\<close>

theorem reorder_guard_characterisation:
  "(reorder_rejected xs \<longleftrightarrow>
      (\<exists>i j. i < j \<and> j < length xs \<and> checked (xs ! i) \<and> \<not> checked (xs ! j)))
   \<and> ((\<not> reorder_rejected xs) \<longleftrightarrow>
      (\<exists>k m. map checked xs = replicate k False @ replicate m True))
   \<and> (handleReorderChecklistItems (n\<lparr>checklistItems := Some cs\<rparr>) syncDB e noteId xs outcome \<noteq> []
        \<longleftrightarrow> (\<exists>k m. map checked xs = replicate k False @ replicate m True))"
proof (intro conjI)
  show "reorder_rejected xs \<longleftrightarrow>
      (\<exists>i j. i < j \<and> j < length xs \<and> checked (xs ! i) \<and> \<not> checked (xs ! j))"
    by (rule reorder_rejected_inversion)
  show "(\<not> reorder_rejected xs) \<longleftrightarrow>
      (\<exists>k m. map checked xs = replicate k False @ replicate m True)"
    by (rule reorder_accepts_blocks)
  have "checklistItems (n\<lparr>checklistItems := Some cs\<rparr>) = Some cs" by simp
  then have "handleReorderChecklistItems (n\<lparr>checklistItems := Some cs\<rparr>) syncDB e noteId xs outcome = []
      \<longleftrightarrow> reorder_rejected xs"
    by (rule reorder_no_effect_iff)
  then show "handleReorderChecklistItems (n\<lparr>checklistItems := Some cs\<rparr>) syncDB e noteId xs outcome \<noteq> []
        \<longleftrightarrow> (\<exists>k m. map checked xs = replicate k False @ replicate m True)"
    using reorder_accepts_blocks [of xs] by simp
qed

theorem reorder_guard_characterisation_witness:
  "reorder_rejected [item_a, item_c, item_b]
   \<and> \<not> reorder_rejected [item_a, item_b, item_c]
   \<and> handleReorderChecklistItems note_abc False env0 ''n1'' [item_a, item_b, item_c] Rejects \<noteq> []"
proof -
  have inv: "(1::nat) < 2 \<and> 2 < length [item_a, item_c, item_b]
      \<and> checked ([item_a, item_c, item_b] ! 1) \<and> \<not> checked ([item_a, item_c, item_b] ! 2)"
    by (simp add: item_a_def item_b_def item_c_def)
  have blocks: "map checked [item_a, item_b, item_c] = replicate 2 False @ replicate 1 True"
    by (simp add: item_a_def item_b_def item_c_def numeral_2_eq_2)
  have upd: "note_abc\<lparr>checklistItems := Some [item_a, item_b, item_c]\<rparr> = note_abc"
    by (simp add: note_abc_def)
  from inv have ex1: "\<exists>i j. i < j \<and> j < length [item_a, item_c, item_b]
      \<and> checked ([item_a, item_c, item_b] ! i) \<and> \<not> checked ([item_a, item_c, item_b] ! j)"
    by blast
  from blocks have ex2:
    "\<exists>k m. map checked [item_a, item_b, item_c] = replicate k False @ replicate m True"
    by blast
  have r1: "reorder_rejected [item_a, item_c, item_b]"
    using reorder_guard_characterisation [where xs = "[item_a, item_c, item_b]", THEN conjunct1]
      ex1 by (rule iffD2)
  note c = reorder_guard_characterisation [where xs = "[item_a, item_b, item_c]" and n = note_abc
        and cs = "[item_a, item_b, item_c]" and syncDB = False and e = env0 and noteId = "''n1''"
        and outcome = Rejects]
  have r2: "\<not> reorder_rejected [item_a, item_b, item_c]"
    using c [THEN conjunct2, THEN conjunct1] ex2 by (rule iffD2)
  have r3: "handleReorderChecklistItems (note_abc\<lparr>checklistItems := Some [item_a, item_b, item_c]\<rparr>)
      False env0 ''n1'' [item_a, item_b, item_c] Rejects \<noteq> []"
    using c [THEN conjunct2, THEN conjunct2] ex2 by (rule iffD2)
  from r1 r2 r3 show ?thesis unfolding upd by blast
qed

section \<open>Reordering\<close>

lemma length_reindex_from: "length (reindex_from k xs) = length xs"
  by (induction xs arbitrary: k) simp_all

lemma nth_reindex_from:
  "i < length xs \<Longrightarrow> reindex_from k xs ! i = (xs ! i)\<lparr>order := k + int i\<rparr>"
proof (induction xs arbitrary: k i)
  case Nil
  then show ?case by simp
next
  case (Cons x xs)
  show ?case
  proof (cases i)
    case 0
    then show ?thesis by simp
  next
    case (Suc j)
    with Cons.prems have "j < length xs" by simp
    then have "reindex_from (k + 1) xs ! j = (xs ! j)\<lparr>order := k + 1 + int j\<rparr>"
      by (rule Cons.IH)
    with Suc show ?thesis by (simp add: add.assoc)
  qed
qed

lemma map_order_reindex_from:
  "map order (reindex_from k xs) = map (\<lambda>i. k + int i) [0..<length xs]"
  by (rule nth_equalityI) (simp_all add: length_reindex_from nth_reindex_from)

lemma reindex_from_keeps_fields:
  "map item_id (reindex_from k xs) = map item_id xs"
  "map content (reindex_from k xs) = map content xs"
  "map checked (reindex_from k xs) = map checked xs"
  by (induction xs arbitrary: k) simp_all

lemma reorder_accepted_trace:
  "checklistItems n = Some cs \<Longrightarrow> \<not> reorder_rejected newItems \<Longrightarrow>
   handleReorderChecklistItems n syncDB e noteId newItems outcome =
     OnUpdate (n\<lparr>checklistItems := Some (reindex_from 0 newItems)\<rparr>) #
     (if syncDB then
        Fetch \<lparr>url_board = boardId n, url_note = noteId,
               body = \<lparr>body_checklistItems = reindex_from 0 newItems,
                        body_archivedAt =
                          (if list_all checked newItems then Val (iso_now e) else Null)\<rparr>\<rparr> #
        (case outcome of
           Rejects \<Rightarrow> [ConsoleError ''Failed to reorder checklist item:'']
         | Resolves response \<Rightarrow>
             if ok response then
               (case json_note response of
                  None \<Rightarrow> [ConsoleError ''Failed to reorder checklist item:'']
                | Some updatedNote \<Rightarrow> [OnUpdate updatedNote])
             else [OnUpdate n])
      else [])"
  by (simp add: handleReorderChecklistItems_def Let_def)

lemma reorder_acts_cases:
  assumes "handleReorderChecklistItems n syncDB e noteId newItems outcome \<noteq> []"
  obtains cs where "checklistItems n = Some cs" and "\<not> reorder_rejected newItems"
  using assms by (cases "checklistItems n") (auto simp: handleReorderChecklistItems_def Let_def split: if_splits)

lemma fetches_reorder:
  "checklistItems n = Some cs \<Longrightarrow> \<not> reorder_rejected newItems \<Longrightarrow>
   fetches (handleReorderChecklistItems n syncDB e noteId newItems outcome) =
     (if syncDB then
        [\<lparr>url_board = boardId n, url_note = noteId,
          body = \<lparr>body_checklistItems = reindex_from 0 newItems,
                   body_archivedAt =
                     (if list_all checked newItems then Val (iso_now e) else Null)\<rparr>\<rparr>]
      else [])"
  by (simp add: reorder_accepted_trace split: fetch_outcome.splits option.splits)

lemma other_payloads_without_archive_flag:
  "\<forall>r \<in> set (fetches (handleToggleChecklistItem n syncDB itemId outcome)
                @ fetches (handleDeleteChecklistItem n syncDB itemId outcome)
                @ fetches (handleEditChecklistItem n syncDB itemId newContent outcome)
                @ fetches (handleAddChecklistItem n syncDB e newContent outcome)).
      body_archivedAt (body r) = Absent"
  by (auto simp: handleToggleChecklistItem_def handleDeleteChecklistItem_def
      handleEditChecklistItem_def handleAddChecklistItem_def Let_def
      split: option.splits fetch_outcome.splits if_splits)

lemma sample_reorder_acts:
  "handleReorderChecklistItems note_ab True env0 ''n1'' [item_b, item_a] (Resolves \<lparr>ok = False, json_note = None\<rparr>) \<noteq> []"
  by (simp add: handleReorderChecklistItems_def reorder_rejected_def note_ab_def item_a_def
      item_b_def Let_def)

lemma sample_reorder_checked_acts:
  "handleReorderChecklistItems note_c True env0 ''n1'' [item_c] Rejects \<noteq> []"
  by (simp add: handleReorderChecklistItems_def reorder_rejected_def note_c_def item_c_def Let_def)

lemma unchecked_checked_unchecked_rejected:
  "\<not> checked u \<Longrightarrow> checked c \<Longrightarrow> \<not> checked u' \<Longrightarrow> reorder_rejected [u, c, u']"
  by (simp add: reorder_rejected_def Let_def)

lemma reorder_rejected_first_last:
  "reorder_rejected xs \<longleftrightarrow>
     (\<exists>f l. f < length xs \<and> checked (xs ! f) \<and> (\<forall>k < f. \<not> checked (xs ! k))
          \<and> l < length xs \<and> \<not> checked (xs ! l)
          \<and> (\<forall>k. l < k \<and> k < length xs \<longrightarrow> checked (xs ! k))
          \<and> f < l)"
proof
  assume r: "reorder_rejected xs"
  let ?f = "findIndex checked xs" and ?l = "lastIndexOf (map checked xs) False"
  from r have f: "?f \<noteq> - 1" and l: "?l \<noteq> - 1" and lt: "?f < ?l"
    by (auto simp: reorder_rejected_def Let_def)
  from findIndex_hit [OF f] have fh: "0 \<le> ?f" "nat ?f < length xs" "checked (xs ! nat ?f)"
    by auto
  from lastIndexOf_hit [OF l] have lh: "0 \<le> ?l" "nat ?l < length xs"
    "map checked xs ! nat ?l = False" by auto
  have fmin: "\<forall>k < nat ?f. \<not> checked (xs ! k)"
  proof (intro allI impI notI)
    fix k assume k: "k < nat ?f" and c: "checked (xs ! k)"
    from k fh(2) have "k < length xs" by simp
    then have "?f \<le> int k" using c by (rule findIndex_least)
    with k show False by arith
  qed
  have lmax: "\<forall>k. nat ?l < k \<and> k < length xs \<longrightarrow> checked (xs ! k)"
  proof (intro allI impI)
    fix k assume k: "nat ?l < k \<and> k < length xs"
    show "checked (xs ! k)"
    proof (rule ccontr)
      assume "\<not> checked (xs ! k)"
      with k have "k < length (map checked xs)" "map checked xs ! k = False" by simp_all
      then have "int k \<le> ?l" by (rule lastIndexOf_greatest)
      with k lh(1) show False by arith
    qed
  qed
  from lh have lu: "\<not> checked (xs ! nat ?l)" by simp
  from fh(1) lt have "nat ?f < nat ?l" by arith
  with fh(2,3) fmin lh(2) lu lmax
  show "\<exists>f l. f < length xs \<and> checked (xs ! f) \<and> (\<forall>k < f. \<not> checked (xs ! k))
          \<and> l < length xs \<and> \<not> checked (xs ! l)
          \<and> (\<forall>k. l < k \<and> k < length xs \<longrightarrow> checked (xs ! k))
          \<and> f < l"
    by blast
next
  assume "\<exists>f l. f < length xs \<and> checked (xs ! f) \<and> (\<forall>k < f. \<not> checked (xs ! k))
          \<and> l < length xs \<and> \<not> checked (xs ! l)
          \<and> (\<forall>k. l < k \<and> k < length xs \<longrightarrow> checked (xs ! k))
          \<and> f < l"
  then obtain f l where "f < l" "l < length xs" "checked (xs ! f)" "\<not> checked (xs ! l)"
    by blast
  then have "\<exists>i j. i < j \<and> j < length xs \<and> checked (xs ! i) \<and> \<not> checked (xs ! j)"
    by blast
  then show "reorder_rejected xs" by (simp add: reorder_rejected_inversion)
qed

lemma sample_reorder_abc_acts:
  "handleReorderChecklistItems note_abc True env0 ''n1'' [item_b, item_a, item_c] Rejects \<noteq> []"
  by (simp add: handleReorderChecklistItems_def reorder_rejected_def note_abc_def
      item_a_def item_b_def item_c_def Let_def)

lemma two_items_by_index:
  "length ys = 2 \<Longrightarrow> ys ! 0 = a \<Longrightarrow> ys ! 1 = b \<Longrightarrow> ys = [a, b]"
  by (cases ys; cases "tl ys") auto

lemma one_item_by_index:
  "length ys = 1 \<Longrightarrow> ys ! 0 = a \<Longrightarrow> ys = [a]"
  by (cases ys) auto

text \<open>
  Claim C2. On a note that has a checklist, \<^verbatim>\<open>handleReorderChecklistItems\<close> rejects the
  operation, that is it returns without any effect (no \<^verbatim>\<open>onUpdate\<close>, so the note is
  unchanged, and no \<^verbatim>\<open>fetch\<close>), exactly when the guard holds; and the guard holds exactly
  when there are a first index \<open>f\<close> of a checked item and a last index \<open>l\<close> of an
  unchecked item with \<open>l > f\<close>. A call that is not rejected hands \<^verbatim>\<open>onUpdate\<close> a note
  and, when \<^verbatim>\<open>syncDB\<close> is on, sends one request. The sequence unchecked, checked,
  unchecked is rejected. (On a note whose \<^verbatim>\<open>checklistItems\<close> is missing the handler
  returns at its first line, before the guard: lemma \<open>reorder_no_checklist\<close>.)
\<close>

theorem reorder_rejects_exactly_on_guard:
  assumes "checklistItems n = Some cs"
  shows "(handleReorderChecklistItems n syncDB e noteId newItems outcome = []
            \<longleftrightarrow> reorder_rejected newItems)
       \<and> (reorder_rejected newItems \<longleftrightarrow>
            (\<exists>f l. f < length newItems \<and> checked (newItems ! f)
                 \<and> (\<forall>k < f. \<not> checked (newItems ! k))
                 \<and> l < length newItems \<and> \<not> checked (newItems ! l)
                 \<and> (\<forall>k. l < k \<and> k < length newItems \<longrightarrow> checked (newItems ! k))
                 \<and> f < l))
       \<and> (reorder_rejected newItems \<longrightarrow>
            local_state n (handleReorderChecklistItems n syncDB e noteId newItems outcome) = n
            \<and> fetches (handleReorderChecklistItems n syncDB e noteId newItems outcome) = []
            \<and> first_update (handleReorderChecklistItems n syncDB e noteId newItems outcome) = None)
       \<and> (\<not> reorder_rejected newItems \<longrightarrow>
            first_update (handleReorderChecklistItems n syncDB e noteId newItems outcome) \<noteq> None
            \<and> length (fetches (handleReorderChecklistItems n syncDB e noteId newItems outcome))
                = (if syncDB then 1 else 0))
       \<and> (\<not> checked u \<and> checked c \<and> \<not> checked u' \<longrightarrow>
            reorder_rejected [u, c, u']
            \<and> handleReorderChecklistItems n syncDB e noteId [u, c, u'] outcome = [])"
proof -
  have iff: "handleReorderChecklistItems n syncDB e noteId newItems outcome = []
            \<longleftrightarrow> reorder_rejected newItems"
    using assms by (rule reorder_no_effect_iff)
  have rej: "reorder_rejected newItems \<longrightarrow>
            local_state n (handleReorderChecklistItems n syncDB e noteId newItems outcome) = n
            \<and> fetches (handleReorderChecklistItems n syncDB e noteId newItems outcome) = []
            \<and> first_update (handleReorderChecklistItems n syncDB e noteId newItems outcome) = None"
  proof
    assume "reorder_rejected newItems"
    with iff have "handleReorderChecklistItems n syncDB e noteId newItems outcome = []" by blast
    then show "local_state n (handleReorderChecklistItems n syncDB e noteId newItems outcome) = n
            \<and> fetches (handleReorderChecklistItems n syncDB e noteId newItems outcome) = []
            \<and> first_update (handleReorderChecklistItems n syncDB e noteId newItems outcome) = None"
      by simp
  qed
  have acc: "\<not> reorder_rejected newItems \<longrightarrow>
            first_update (handleReorderChecklistItems n syncDB e noteId newItems outcome) \<noteq> None
            \<and> length (fetches (handleReorderChecklistItems n syncDB e noteId newItems outcome))
                = (if syncDB then 1 else 0)"
  proof
    assume a: "\<not> reorder_rejected newItems"
    show "first_update (handleReorderChecklistItems n syncDB e noteId newItems outcome) \<noteq> None
            \<and> length (fetches (handleReorderChecklistItems n syncDB e noteId newItems outcome))
                = (if syncDB then 1 else 0)"
    proof
      show "first_update (handleReorderChecklistItems n syncDB e noteId newItems outcome) \<noteq> None"
        by (simp add: reorder_accepted_trace [OF assms a])
      show "length (fetches (handleReorderChecklistItems n syncDB e noteId newItems outcome))
                = (if syncDB then 1 else 0)"
        by (simp add: fetches_reorder [OF assms a])
    qed
  qed
  have ftf: "\<not> checked u \<and> checked c \<and> \<not> checked u' \<longrightarrow>
            reorder_rejected [u, c, u']
            \<and> handleReorderChecklistItems n syncDB e noteId [u, c, u'] outcome = []"
  proof
    assume "\<not> checked u \<and> checked c \<and> \<not> checked u'"
    then have r: "reorder_rejected [u, c, u']"
      by (simp add: unchecked_checked_unchecked_rejected)
    moreover from assms r have "handleReorderChecklistItems n syncDB e noteId [u, c, u'] outcome = []"
      by (simp add: reorder_no_effect_iff)
    ultimately show "reorder_rejected [u, c, u']
            \<and> handleReorderChecklistItems n syncDB e noteId [u, c, u'] outcome = []"
      by blast
  qed
  from iff reorder_rejected_first_last [of newItems] rej acc ftf show ?thesis by blast
qed

theorem reorder_rejects_exactly_on_guard_witness:
  "handleReorderChecklistItems note_abc True env0 ''n1'' [item_a, item_c, item_b] Rejects = []
   \<and> reorder_rejected [item_a, item_c, item_b]
   \<and> \<not> reorder_rejected [item_b, item_a, item_c]
   \<and> length (fetches (handleReorderChecklistItems note_abc True env0 ''n1''
        [item_b, item_a, item_c] Rejects)) = 1"
proof -
  have s: "checklistItems note_abc = Some [item_a, item_b, item_c]"
    by (simp add: note_abc_def)
  have f: "\<not> checked item_a \<and> checked item_c \<and> \<not> checked item_b"
    by (simp add: item_a_def item_b_def item_c_def)
  note g = reorder_rejects_exactly_on_guard [OF s, where syncDB = True and e = env0
      and noteId = "''n1''" and outcome = Rejects and u = item_a and c = item_c and u' = item_b
      and newItems = "[item_b, item_a, item_c]"]
  from g f have 1: "reorder_rejected [item_a, item_c, item_b]
      \<and> handleReorderChecklistItems note_abc True env0 ''n1'' [item_a, item_c, item_b] Rejects = []"
    by blast
  from g sample_reorder_abc_acts have 2: "\<not> reorder_rejected [item_b, item_a, item_c]"
    by blast
  with g have "length (fetches (handleReorderChecklistItems note_abc True env0 ''n1''
        [item_b, item_a, item_c] Rejects)) = (if True then 1 else 0)"
    by blast
  with 1 2 show ?thesis by simp
qed

text \<open>
  Claim C3. Every reorder call that is not rejected hands \<^verbatim>\<open>onUpdate\<close> an optimistic note
  whose checklist \<open>ys\<close> is also the \<^verbatim>\<open>checklistItems\<close> of the request body (one request
  when \<^verbatim>\<open>syncDB\<close> is on, none otherwise); \<open>ys\<close> has the items of the submitted sequence in
  the submitted order, each with \<^verbatim>\<open>order\<close> equal to its position, so the order values are
  0, 1, ..., n-1, and \<^verbatim>\<open>id\<close>, \<^verbatim>\<open>content\<close> and \<^verbatim>\<open>checked\<close> are unchanged.
\<close>

theorem reorder_assigns_positions:
  assumes "handleReorderChecklistItems n syncDB e noteId newItems outcome \<noteq> []"
  shows "\<exists>ys. first_update (handleReorderChecklistItems n syncDB e noteId newItems outcome)
                = Some (n\<lparr>checklistItems := Some ys\<rparr>)
          \<and> map (body_checklistItems \<circ> body)
               (fetches (handleReorderChecklistItems n syncDB e noteId newItems outcome))
              = (if syncDB then [ys] else [])
          \<and> length ys = length newItems
          \<and> (\<forall>i < length newItems. ys ! i = (newItems ! i)\<lparr>order := int i\<rparr>)
          \<and> map order ys = map int [0..<length newItems]
          \<and> map item_id ys = map item_id newItems
          \<and> map content ys = map content newItems
          \<and> map checked ys = map checked newItems"
proof -
  from assms obtain cs where cs: "checklistItems n = Some cs" and acc: "\<not> reorder_rejected newItems"
    by (rule reorder_acts_cases)
  let ?ys = "reindex_from 0 newItems"
  have "first_update (handleReorderChecklistItems n syncDB e noteId newItems outcome)
          = Some (n\<lparr>checklistItems := Some ?ys\<rparr>)"
    by (simp add: reorder_accepted_trace [OF cs acc])
  moreover have "map (body_checklistItems \<circ> body)
               (fetches (handleReorderChecklistItems n syncDB e noteId newItems outcome))
              = (if syncDB then [?ys] else [])"
    by (simp add: fetches_reorder [OF cs acc])
  moreover have "length ?ys = length newItems" by (rule length_reindex_from)
  moreover have "\<forall>i < length newItems. ?ys ! i = (newItems ! i)\<lparr>order := int i\<rparr>"
    by (simp add: nth_reindex_from)
  moreover have "map order ?ys = map int [0..<length newItems]"
    by (simp add: map_order_reindex_from)
  moreover note reindex_from_keeps_fields [of 0 newItems]
  ultimately show ?thesis by blast
qed

theorem reorder_assigns_positions_witness:
  "\<exists>ys. first_update (handleReorderChecklistItems note_ab True env0 ''n1'' [item_b, item_a]
                         (Resolves \<lparr>ok = False, json_note = None\<rparr>))
            = Some (note_ab\<lparr>checklistItems := Some ys\<rparr>)
        \<and> map order ys = [0, 1] \<and> map item_id ys = [''b'', ''a'']"
proof -
  from reorder_assigns_positions [OF sample_reorder_acts]
  obtain ys where ys:
    "first_update (handleReorderChecklistItems note_ab True env0 ''n1'' [item_b, item_a]
                         (Resolves \<lparr>ok = False, json_note = None\<rparr>))
            = Some (note_ab\<lparr>checklistItems := Some ys\<rparr>)"
    "map order ys = map int [0..<length [item_b, item_a]]"
    "map item_id ys = map item_id [item_b, item_a]"
    by blast
  have "map int [0..<length [item_b, item_a]] = [0, 1]" by (simp add: upt_rec)
  moreover have "map item_id [item_b, item_a] = [''b'', ''a'']"
    by (simp add: item_a_def item_b_def)
  ultimately show ?thesis using ys by auto
qed

text \<open>
  Claim C4. Every reorder call that is not rejected and synchronises sends one request
  whose body holds the reindexed items (as many items as the submitted sequence, the item
  at position \<open>i\<close> being the submitted one with \<^verbatim>\<open>order\<close> set to \<open>i\<close>) and the key
  \<^verbatim>\<open>archivedAt\<close>: the current time stamp when every item of the new sequence is checked,
  \<^verbatim>\<open>null\<close> otherwise. The requests of the other four handlers carry no \<^verbatim>\<open>archivedAt\<close>
  key.
\<close>

theorem reorder_payload_archive_flag:
  assumes "handleReorderChecklistItems n syncDB e noteId newItems outcome \<noteq> []"
  shows "\<exists>ys. fetches (handleReorderChecklistItems n syncDB e noteId newItems outcome) =
              (if syncDB then
                 [\<lparr>url_board = boardId n, url_note = noteId,
                   body = \<lparr>body_checklistItems = ys,
                            body_archivedAt =
                              (if list_all checked newItems then Val (iso_now e) else Null)\<rparr>\<rparr>]
               else [])
            \<and> length ys = length newItems
            \<and> (\<forall>i < length newItems. ys ! i = (newItems ! i)\<lparr>order := int i\<rparr>)
            \<and> ys = reindex_from 0 newItems
            \<and> (\<forall>r \<in> set (fetches (handleToggleChecklistItem n syncDB itemId outcome)
                    @ fetches (handleDeleteChecklistItem n syncDB itemId outcome)
                    @ fetches (handleEditChecklistItem n syncDB itemId newContent outcome)
                    @ fetches (handleAddChecklistItem n syncDB e newContent outcome)).
                  body_archivedAt (body r) = Absent)"
proof -
  from assms obtain cs where cs: "checklistItems n = Some cs" and acc: "\<not> reorder_rejected newItems"
    by (rule reorder_acts_cases)
  let ?ys = "reindex_from 0 newItems"
  have "fetches (handleReorderChecklistItems n syncDB e noteId newItems outcome) =
           (if syncDB then
              [\<lparr>url_board = boardId n, url_note = noteId,
                body = \<lparr>body_checklistItems = ?ys,
                         body_archivedAt =
                           (if list_all checked newItems then Val (iso_now e) else Null)\<rparr>\<rparr>]
            else [])"
    by (rule fetches_reorder [OF cs acc])
  moreover have "length ?ys = length newItems" by (rule length_reindex_from)
  moreover have "\<forall>i < length newItems. ?ys ! i = (newItems ! i)\<lparr>order := int i\<rparr>"
    by (simp add: nth_reindex_from)
  moreover note other_payloads_without_archive_flag [of n syncDB itemId outcome newContent e]
  ultimately show ?thesis by blast
qed

theorem reorder_payload_archive_flag_witness:
  "fetches (handleReorderChecklistItems note_c True env0 ''n1'' [item_c] Rejects)
     = [\<lparr>url_board = ''b1'', url_note = ''n1'',
         body = \<lparr>body_checklistItems = [item_c\<lparr>order := 0\<rparr>],
                  body_archivedAt = Val ''2025-01-02T00:00:00.000Z''\<rparr>\<rparr>]
   \<and> fetches (handleReorderChecklistItems note_ab True env0 ''n1'' [item_b, item_a]
        (Resolves \<lparr>ok = False, json_note = None\<rparr>))
     = [\<lparr>url_board = ''b1'', url_note = ''n1'',
         body = \<lparr>body_checklistItems = [item_b\<lparr>order := 0\<rparr>, item_a\<lparr>order := 1\<rparr>],
                  body_archivedAt = Null\<rparr>\<rparr>]"
proof -
  have c: "list_all checked [item_c]" by (simp add: item_c_def)
  have u: "\<not> list_all checked [item_b, item_a]" by (simp add: item_a_def)
  have t: "iso_now env0 = ''2025-01-02T00:00:00.000Z''" by (simp add: env0_def)
  have bc: "boardId note_c = ''b1''" and bab: "boardId note_ab = ''b1''"
    by (simp_all add: note_c_def note_ab_def)
  from reorder_payload_archive_flag [OF sample_reorder_checked_acts]
  obtain ys where ys:
    "fetches (handleReorderChecklistItems note_c True env0 ''n1'' [item_c] Rejects) =
       (if True then
          [\<lparr>url_board = boardId note_c, url_note = ''n1'',
            body = \<lparr>body_checklistItems = ys,
                     body_archivedAt =
                       (if list_all checked [item_c] then Val (iso_now env0) else Null)\<rparr>\<rparr>]
        else [])"
    "length ys = length [item_c]"
    "\<forall>i < length [item_c]. ys ! i = ([item_c] ! i)\<lparr>order := int i\<rparr>"
    by blast
  from ys(2) have l1: "length ys = 1" by simp
  from ys(3) have "ys ! 0 = item_c\<lparr>order := 0\<rparr>" by simp
  with l1 have "ys = [item_c\<lparr>order := 0\<rparr>]" by (rule one_item_by_index)
  with ys(1) c t bc have 1:
    "fetches (handleReorderChecklistItems note_c True env0 ''n1'' [item_c] Rejects)
     = [\<lparr>url_board = ''b1'', url_note = ''n1'',
         body = \<lparr>body_checklistItems = [item_c\<lparr>order := 0\<rparr>],
                  body_archivedAt = Val ''2025-01-02T00:00:00.000Z''\<rparr>\<rparr>]"
    by simp
  from reorder_payload_archive_flag [OF sample_reorder_acts]
  obtain zs where zs:
    "fetches (handleReorderChecklistItems note_ab True env0 ''n1'' [item_b, item_a]
        (Resolves \<lparr>ok = False, json_note = None\<rparr>)) =
       (if True then
          [\<lparr>url_board = boardId note_ab, url_note = ''n1'',
            body = \<lparr>body_checklistItems = zs,
                     body_archivedAt =
                       (if list_all checked [item_b, item_a] then Val (iso_now env0) else Null)\<rparr>\<rparr>]
        else [])"
    "length zs = length [item_b, item_a]"
    "\<forall>i < length [item_b, item_a]. zs ! i = ([item_b, item_a] ! i)\<lparr>order := int i\<rparr>"
    by blast
  from zs(2) have l2: "length zs = 2" by simp
  from zs(3) have z0: "zs ! 0 = item_b\<lparr>order := 0\<rparr>" by simp
  from zs(3) have "1 < length [item_b, item_a] \<longrightarrow> zs ! 1 = ([item_b, item_a] ! 1)\<lparr>order := int 1\<rparr>"
    by blast
  then have z1: "zs ! 1 = item_a\<lparr>order := 1\<rparr>" by simp
  from l2 z0 z1 have "zs = [item_b\<lparr>order := 0\<rparr>, item_a\<lparr>order := 1\<rparr>]"
    by (rule two_items_by_index)
  with zs(1) u bab have 2:
    "fetches (handleReorderChecklistItems note_ab True env0 ''n1'' [item_b, item_a]
        (Resolves \<lparr>ok = False, json_note = None\<rparr>))
     = [\<lparr>url_board = ''b1'', url_note = ''n1'',
         body = \<lparr>body_checklistItems = [item_b\<lparr>order := 0\<rparr>, item_a\<lparr>order := 1\<rparr>],
                  body_archivedAt = Null\<rparr>\<rparr>]"
    by simp
  from 1 2 show ?thesis by blast
qed

section \<open>Adding an item\<close>

lemma add_trace:
  "handleAddChecklistItem n syncDB e newContent outcome =
     OnUpdate (n\<lparr>checklistItems :=
                  Some (items_or_empty n @
                    [\<lparr>item_id = ''item_'' @ date_now e @ ''_'' @ random_suffix e,
                      content = newContent, checked = False,
                      order = int (length (items_or_empty n))\<rparr>]),
                archivedAt := Null\<rparr>) #
     (if syncDB then
        Fetch \<lparr>url_board = boardId n, url_note = note_id n,
               body = \<lparr>body_checklistItems = items_or_empty n @
                          [\<lparr>item_id = ''item_'' @ date_now e @ ''_'' @ random_suffix e,
                            content = newContent, checked = False,
                            order = int (length (items_or_empty n))\<rparr>],
                        body_archivedAt = Absent\<rparr>\<rparr> #
        (case outcome of
           Rejects \<Rightarrow> [ConsoleError ''Error adding checklist item:'']
         | Resolves response \<Rightarrow>
             if ok response then
               (case json_note response of
                  None \<Rightarrow> [ConsoleError ''Error adding checklist item:'']
                | Some updatedNote \<Rightarrow> [OnUpdate updatedNote])
             else [OnUpdate n])
      else [])"
  by (cases "checklistItems n") (simp_all add: handleAddChecklistItem_def items_or_empty_def Let_def)

text \<open>
  Claim C10. For every note and every content, the optimistic note that
  \<^verbatim>\<open>handleAddChecklistItem\<close> hands to \<^verbatim>\<open>onUpdate\<close> has \<^verbatim>\<open>archivedAt = null\<close>: the new item
  is unchecked, so the items of the optimistic note are never all checked. This holds
  also when \<^verbatim>\<open>archivedAt\<close> of the note was a time stamp before the call.
\<close>

theorem add_optimistic_archivedAt_null:
  "\<exists>items. first_update (handleAddChecklistItem n syncDB e newContent outcome)
             = Some (n\<lparr>checklistItems := Some items, archivedAt := Null\<rparr>)
         \<and> \<not> list_all checked items
         \<and> (\<exists>newItem. items = items_or_empty n @ [newItem] \<and> \<not> checked newItem
               \<and> content newItem = newContent)"
proof -
  let ?new = "\<lparr>item_id = ''item_'' @ date_now e @ ''_'' @ random_suffix e,
               content = newContent, checked = False,
               order = int (length (items_or_empty n))\<rparr>"
  have "first_update (handleAddChecklistItem n syncDB e newContent outcome)
          = Some (n\<lparr>checklistItems := Some (items_or_empty n @ [?new]), archivedAt := Null\<rparr>)"
    by (simp add: add_trace)
  moreover have "\<not> list_all checked (items_or_empty n @ [?new])" by simp
  moreover have "\<not> checked ?new \<and> content ?new = newContent" by simp
  ultimately show ?thesis by blast
qed

theorem add_optimistic_archivedAt_null_witness:
  "\<exists>items. first_update (handleAddChecklistItem note_ab_archived True env0 ''w'' Rejects)
             = Some (note_ab_archived\<lparr>checklistItems := Some items, archivedAt := Null\<rparr>)
   \<and> archivedAt note_ab_archived = Val ''2024-12-31T00:00:00.000Z''"
proof -
  have "archivedAt note_ab_archived = Val ''2024-12-31T00:00:00.000Z''"
    by (simp add: note_ab_archived_def)
  with add_optimistic_archivedAt_null [of note_ab_archived True env0 "''w''" Rejects]
  show ?thesis by blast
qed

text \<open>
  Claim C7. The request of \<^verbatim>\<open>handleAddChecklistItem\<close> (one when \<^verbatim>\<open>syncDB\<close> is on, none
  otherwise) has a body with \<^verbatim>\<open>checklistItems\<close>, the old items followed by the new one,
  and no \<^verbatim>\<open>archivedAt\<close> key, while the optimistic note of the same call has its
  \<^verbatim>\<open>archivedAt\<close> set to \<^verbatim>\<open>null\<close>.
\<close>

theorem add_payload_items_only:
  "fetches (handleAddChecklistItem n syncDB e newContent outcome) =
     (if syncDB then
        [\<lparr>url_board = boardId n, url_note = note_id n,
          body = \<lparr>body_checklistItems = items_or_empty n @
                     [\<lparr>item_id = ''item_'' @ date_now e @ ''_'' @ random_suffix e,
                       content = newContent, checked = False,
                       order = int (length (items_or_empty n))\<rparr>],
                   body_archivedAt = Absent\<rparr>\<rparr>]
      else [])
   \<and> (\<forall>r \<in> set (fetches (handleAddChecklistItem n syncDB e newContent outcome)).
         body_archivedAt (body r) = Absent)
   \<and> (\<exists>u. first_update (handleAddChecklistItem n syncDB e newContent outcome) = Some u
            \<and> archivedAt u = Null)"
  by (simp add: add_trace split: fetch_outcome.splits option.splits)

theorem add_payload_items_only_witness:
  "map (body_archivedAt \<circ> body)
     (fetches (handleAddChecklistItem note_c True env0 ''w''
        (Resolves \<lparr>ok = False, json_note = None\<rparr>))) = [Absent]"
proof -
  note t = add_payload_items_only [where n = note_c
      and syncDB = True and e = env0 and newContent = "''w''"
      and outcome = "Resolves \<lparr>ok = False, json_note = None\<rparr>", THEN conjunct1]
  show ?thesis unfolding t by simp
qed

section \<open>The archive flag of the optimistic note\<close>

lemma first_update_reorder:
  "checklistItems n = Some cs \<Longrightarrow> \<not> reorder_rejected newItems \<Longrightarrow>
   first_update (handleReorderChecklistItems n syncDB e noteId newItems outcome)
     = Some (n\<lparr>checklistItems := Some (reindex_from 0 newItems)\<rparr>)"
  by (simp add: reorder_accepted_trace)

lemma sample_reorder_archived_acts:
  "handleReorderChecklistItems note_ab_archived True env0 ''n1'' [item_b, item_a] Rejects \<noteq> []"
  by (simp add: handleReorderChecklistItems_def reorder_rejected_def note_ab_archived_def
      note_ab_def item_a_def item_b_def Let_def)

text \<open>
  Claim C5, as amended. After \<^verbatim>\<open>handleAddChecklistItem\<close> the optimistic note has
  \<^verbatim>\<open>archivedAt = null\<close> and holds an unchecked item, so it satisfies the archive rule
  (non-null exactly when there is an item and all items are checked); this covers a note
  whose checklist was empty. A reorder that is not rejected does not recompute
  \<^verbatim>\<open>archivedAt\<close> in the optimistic note: it keeps the value of the note before the call.
\<close>

theorem archive_flag_in_optimistic_state:
  "(\<exists>u. first_update (handleAddChecklistItem n syncDB e newContent outcome) = Some u
        \<and> archivedAt u = Null \<and> spec_archive_invariant u)
   \<and> (handleReorderChecklistItems n syncDB e noteId newItems outcome \<noteq> [] \<longrightarrow>
        (\<exists>u. first_update (handleReorderChecklistItems n syncDB e noteId newItems outcome) = Some u
            \<and> archivedAt u = archivedAt n))"
proof (intro conjI impI)
  show "\<exists>u. first_update (handleAddChecklistItem n syncDB e newContent outcome) = Some u
        \<and> archivedAt u = Null \<and> spec_archive_invariant u"
    by (simp add: add_trace spec_archive_invariant_def)
next
  assume "handleReorderChecklistItems n syncDB e noteId newItems outcome \<noteq> []"
  then obtain cs where "checklistItems n = Some cs" and "\<not> reorder_rejected newItems"
    by (rule reorder_acts_cases)
  then show "\<exists>u. first_update (handleReorderChecklistItems n syncDB e noteId newItems outcome) = Some u
            \<and> archivedAt u = archivedAt n"
    by (simp add: first_update_reorder)
qed

theorem archive_flag_in_optimistic_state_witness:
  "\<exists>u. first_update (handleReorderChecklistItems note_ab_archived True env0 ''n1''
           [item_b, item_a] Rejects) = Some u
      \<and> archivedAt u = Val ''2024-12-31T00:00:00.000Z''"
proof -
  have "archivedAt note_ab_archived = Val ''2024-12-31T00:00:00.000Z''"
    by (simp add: note_ab_archived_def)
  with archive_flag_in_optimistic_state [where n = note_ab_archived and syncDB = True
      and e = env0 and noteId = "''n1''" and newItems = "[item_b, item_a]"
      and outcome = Rejects, THEN conjunct2]
    sample_reorder_archived_acts
  show ?thesis by simp
qed

text \<open>
  Claim C5 as stated fails for reorder: after both items of the scenario note were
  toggled, swapping them gives an optimistic note whose items are all checked and whose
  \<^verbatim>\<open>archivedAt\<close> is still \<^verbatim>\<open>null\<close>.
\<close>

theorem reorder_keeps_archive_flag_counterexample:
  "first_update (handleReorderChecklistItems note_ab_checked True env0 ''n1''
       [item_b\<lparr>checked := True\<rparr>, item_a\<lparr>checked := True\<rparr>] Rejects)
     = Some (note_ab_checked\<lparr>checklistItems :=
               Some [item_b\<lparr>checked := True, order := 0\<rparr>,
                     item_a\<lparr>checked := True, order := 1\<rparr>]\<rparr>)
   \<and> \<not> spec_archive_invariant
         (note_ab_checked\<lparr>checklistItems :=
               Some [item_b\<lparr>checked := True, order := 0\<rparr>,
                     item_a\<lparr>checked := True, order := 1\<rparr>]\<rparr>)"
  by (simp add: handleReorderChecklistItems_def reorder_rejected_def spec_archive_invariant_def
      note_ab_checked_def note_ab_def item_a_def item_b_def Let_def)

section \<open>Failure of the persistence call\<close>

lemma toggle_not_ok:
  "\<not> ok r \<Longrightarrow> checklistItems n = Some cs \<Longrightarrow>
   handleToggleChecklistItem n True itemId (Resolves r) =
     [OnUpdate (n\<lparr>checklistItems := Some (sort_key order
         (map (\<lambda>item. if item_id item = itemId then item\<lparr>checked := \<not> checked item\<rparr> else item) cs))\<rparr>),
      Fetch \<lparr>url_board = boardId n, url_note = note_id n,
             body = \<lparr>body_checklistItems = sort_key order
         (map (\<lambda>item. if item_id item = itemId then item\<lparr>checked := \<not> checked item\<rparr> else item) cs),
                      body_archivedAt = Absent\<rparr>\<rparr>,
      ConsoleError ''Server error, reverting optimistic update'',
      OnUpdate n]"
  by (simp add: handleToggleChecklistItem_def Let_def)

lemma edit_not_ok:
  "\<not> ok r \<Longrightarrow> checklistItems n = Some cs \<Longrightarrow>
   handleEditChecklistItem n True itemId newContent (Resolves r) =
     [OnUpdate (n\<lparr>checklistItems := Some
         (map (\<lambda>item. if item_id item = itemId then item\<lparr>content := newContent\<rparr> else item) cs)\<rparr>),
      Fetch \<lparr>url_board = boardId n, url_note = note_id n,
             body = \<lparr>body_checklistItems =
         map (\<lambda>item. if item_id item = itemId then item\<lparr>content := newContent\<rparr> else item) cs,
                      body_archivedAt = Absent\<rparr>\<rparr>,
      OnUpdate n]"
  by (simp add: handleEditChecklistItem_def Let_def)

lemma delete_not_ok:
  "\<not> ok r \<Longrightarrow> checklistItems n = Some cs \<Longrightarrow>
   handleDeleteChecklistItem n True itemId (Resolves r) =
     [OnUpdate (n\<lparr>checklistItems := Some (filter (\<lambda>item. item_id item \<noteq> itemId) cs)\<rparr>),
      Fetch \<lparr>url_board = boardId n, url_note = note_id n,
             body = \<lparr>body_checklistItems = filter (\<lambda>item. item_id item \<noteq> itemId) cs,
                      body_archivedAt = Absent\<rparr>\<rparr>,
      OnUpdate n]"
  by (simp add: handleDeleteChecklistItem_def Let_def)

lemma reorder_not_ok:
  "\<not> ok r \<Longrightarrow> checklistItems n = Some cs \<Longrightarrow> \<not> reorder_rejected newItems \<Longrightarrow>
   handleReorderChecklistItems n True e noteId newItems (Resolves r) =
     [OnUpdate (n\<lparr>checklistItems := Some (reindex_from 0 newItems)\<rparr>),
      Fetch \<lparr>url_board = boardId n, url_note = noteId,
             body = \<lparr>body_checklistItems = reindex_from 0 newItems,
                      body_archivedAt =
                        (if list_all checked newItems then Val (iso_now e) else Null)\<rparr>\<rparr>,
      OnUpdate n]"
  by (simp add: reorder_accepted_trace)

lemma no_checklist_no_effect:
  "checklistItems n = None \<Longrightarrow> handleToggleChecklistItem n syncDB itemId outcome = []"
  "checklistItems n = None \<Longrightarrow> handleEditChecklistItem n syncDB itemId newContent outcome = []"
  "checklistItems n = None \<Longrightarrow> handleDeleteChecklistItem n syncDB itemId outcome = []"
  by (simp_all add: handleToggleChecklistItem_def handleEditChecklistItem_def
      handleDeleteChecklistItem_def)

lemma not_ok_local_state:
  assumes "\<not> ok r"
  shows "local_state n (handleToggleChecklistItem n True itemId (Resolves r)) = n"
    and "local_state n (handleEditChecklistItem n True itemId newContent (Resolves r)) = n"
    and "local_state n (handleDeleteChecklistItem n True itemId (Resolves r)) = n"
    and "local_state n (handleReorderChecklistItems n True e noteId newItems (Resolves r)) = n"
proof -
  show "local_state n (handleToggleChecklistItem n True itemId (Resolves r)) = n"
    by (cases "checklistItems n") (simp_all add: no_checklist_no_effect toggle_not_ok [OF assms])
  show "local_state n (handleEditChecklistItem n True itemId newContent (Resolves r)) = n"
    by (cases "checklistItems n") (simp_all add: no_checklist_no_effect edit_not_ok [OF assms])
  show "local_state n (handleDeleteChecklistItem n True itemId (Resolves r)) = n"
    by (cases "checklistItems n") (simp_all add: no_checklist_no_effect delete_not_ok [OF assms])
  show "local_state n (handleReorderChecklistItems n True e noteId newItems (Resolves r)) = n"
  proof (cases "checklistItems n")
    case None
    then show ?thesis by (simp add: reorder_no_checklist)
  next
    case (Some cs)
    show ?thesis
    proof (cases "reorder_rejected newItems")
      case True
      with Some have "handleReorderChecklistItems n True e noteId newItems (Resolves r) = []"
        by (simp add: reorder_no_effect_iff)
      then show ?thesis by simp
    next
      case False
      with Some show ?thesis by (simp add: reorder_not_ok [OF assms])
    qed
  qed
qed

lemma sample_toggle_not_ok:
  "handleToggleChecklistItem note_ab True ''a'' (Resolves \<lparr>ok = False, json_note = None\<rparr>) =
     [OnUpdate (note_ab\<lparr>checklistItems := Some [item_a\<lparr>checked := True\<rparr>, item_b]\<rparr>),
      Fetch \<lparr>url_board = ''b1'', url_note = ''n1'',
             body = \<lparr>body_checklistItems = [item_a\<lparr>checked := True\<rparr>, item_b],
                      body_archivedAt = Absent\<rparr>\<rparr>,
      ConsoleError ''Server error, reverting optimistic update'',
      OnUpdate note_ab]"
  by (simp add: handleToggleChecklistItem_def Let_def note_ab_def item_a_def item_b_def)

lemma thrown_fetch_keeps_optimistic_note:
  "checklistItems n = Some cs \<Longrightarrow>
     local_state n (handleDeleteChecklistItem n True itemId Rejects)
       = n\<lparr>checklistItems := Some (filter (\<lambda>item. item_id item \<noteq> itemId) cs)\<rparr>"
  "checklistItems n = Some cs \<Longrightarrow>
     local_state n (handleEditChecklistItem n True itemId newContent Rejects)
       = n\<lparr>checklistItems := Some
           (map (\<lambda>item. if item_id item = itemId then item\<lparr>content := newContent\<rparr> else item) cs)\<rparr>"
  "checklistItems n = Some cs \<Longrightarrow> \<not> reorder_rejected newItems \<Longrightarrow>
     local_state n (handleReorderChecklistItems n True e noteId newItems Rejects)
       = n\<lparr>checklistItems := Some (reindex_from 0 newItems)\<rparr>"
  "local_state n (handleToggleChecklistItem n True itemId Rejects) = n"
  by (simp_all add: handleDeleteChecklistItem_def handleEditChecklistItem_def
      reorder_accepted_trace handleToggleChecklistItem_def Let_def split: option.splits)

lemma thrown_fetch_after_add:
  "local_state n (handleAddChecklistItem n True e newContent Rejects)
     = n\<lparr>checklistItems :=
           Some (items_or_empty n @
             [\<lparr>item_id = ''item_'' @ date_now e @ ''_'' @ random_suffix e,
               content = newContent, checked = False,
               order = int (length (items_or_empty n))\<rparr>]),
         archivedAt := Null\<rparr>"
  by (simp add: add_trace)

text \<open>
  Claim C6. When the persistence call of toggle, edit, delete or reorder resolves with a
  response that is not \<^verbatim>\<open>ok\<close>, the local note after the call is the note before the
  call; on a note with a checklist the last effect is \<^verbatim>\<open>onUpdate(note)\<close> (for reorder:
  unless the call was rejected by the guard). In the concrete scenario, toggling \<open>a\<close>
  first shows \<open>a\<close> checked and the failed response puts the note with \<open>a\<close> unchecked
  back.
\<close>

theorem rollback_on_rejected_response:
  assumes "\<not> ok r"
  shows "local_state n (handleToggleChecklistItem n True itemId (Resolves r)) = n
       \<and> local_state n (handleEditChecklistItem n True itemId newContent (Resolves r)) = n
       \<and> local_state n (handleDeleteChecklistItem n True itemId (Resolves r)) = n
       \<and> local_state n (handleReorderChecklistItems n True e noteId newItems (Resolves r)) = n
       \<and> (checklistItems n \<noteq> None \<longrightarrow>
            last (handleToggleChecklistItem n True itemId (Resolves r)) = OnUpdate n
          \<and> last (handleEditChecklistItem n True itemId newContent (Resolves r)) = OnUpdate n
          \<and> last (handleDeleteChecklistItem n True itemId (Resolves r)) = OnUpdate n
          \<and> (\<not> reorder_rejected newItems \<longrightarrow>
               last (handleReorderChecklistItems n True e noteId newItems (Resolves r))
                 = OnUpdate n))
       \<and> first_update (handleToggleChecklistItem note_ab True ''a''
            (Resolves \<lparr>ok = False, json_note = None\<rparr>))
           = Some (note_ab\<lparr>checklistItems := Some [item_a\<lparr>checked := True\<rparr>, item_b]\<rparr>)
       \<and> local_state note_ab (handleToggleChecklistItem note_ab True ''a''
            (Resolves \<lparr>ok = False, json_note = None\<rparr>)) = note_ab
       \<and> checklistItems note_ab = Some [item_a, item_b] \<and> \<not> checked item_a"
proof -
  have lasts: "checklistItems n \<noteq> None \<longrightarrow>
            last (handleToggleChecklistItem n True itemId (Resolves r)) = OnUpdate n
          \<and> last (handleEditChecklistItem n True itemId newContent (Resolves r)) = OnUpdate n
          \<and> last (handleDeleteChecklistItem n True itemId (Resolves r)) = OnUpdate n
          \<and> (\<not> reorder_rejected newItems \<longrightarrow>
               last (handleReorderChecklistItems n True e noteId newItems (Resolves r))
                 = OnUpdate n)"
  proof
    assume "checklistItems n \<noteq> None"
    then obtain cs where cs: "checklistItems n = Some cs" by blast
    show "last (handleToggleChecklistItem n True itemId (Resolves r)) = OnUpdate n
          \<and> last (handleEditChecklistItem n True itemId newContent (Resolves r)) = OnUpdate n
          \<and> last (handleDeleteChecklistItem n True itemId (Resolves r)) = OnUpdate n
          \<and> (\<not> reorder_rejected newItems \<longrightarrow>
               last (handleReorderChecklistItems n True e noteId newItems (Resolves r))
                 = OnUpdate n)"
      by (simp add: toggle_not_ok [OF assms cs] edit_not_ok [OF assms cs]
          delete_not_ok [OF assms cs] reorder_not_ok [OF assms cs])
  qed
  have sample: "first_update (handleToggleChecklistItem note_ab True ''a''
            (Resolves \<lparr>ok = False, json_note = None\<rparr>))
           = Some (note_ab\<lparr>checklistItems := Some [item_a\<lparr>checked := True\<rparr>, item_b]\<rparr>)
       \<and> local_state note_ab (handleToggleChecklistItem note_ab True ''a''
            (Resolves \<lparr>ok = False, json_note = None\<rparr>)) = note_ab"
    by (simp add: sample_toggle_not_ok)
  have start: "checklistItems note_ab = Some [item_a, item_b] \<and> \<not> checked item_a"
    by (simp add: note_ab_def item_a_def)
  from not_ok_local_state [OF assms] lasts sample start
  show ?thesis by blast
qed

theorem rollback_on_rejected_response_witness:
  "local_state note_ab (handleDeleteChecklistItem note_ab True ''a''
      (Resolves \<lparr>ok = False, json_note = None\<rparr>)) = note_ab
   \<and> last (handleDeleteChecklistItem note_ab True ''a''
      (Resolves \<lparr>ok = False, json_note = None\<rparr>)) = OnUpdate note_ab
   \<and> last (handleReorderChecklistItems note_ab True env0 ''n1'' [item_b, item_a]
      (Resolves \<lparr>ok = False, json_note = None\<rparr>)) = OnUpdate note_ab"
proof -
  have nok: "\<not> ok (\<lparr>ok = False, json_note = None\<rparr> :: unit response)" by simp
  have some: "checklistItems note_ab \<noteq> None" by (simp add: note_ab_def)
  have acc: "\<not> reorder_rejected [item_b, item_a]"
    by (simp add: reorder_rejected_def item_a_def item_b_def Let_def)
  from rollback_on_rejected_response [OF nok, of note_ab "''a''" "''w''" env0 "''n1''" "[item_b, item_a]"]
    some acc
  show ?thesis by blast
qed

text \<open>
  Claim C1 at a failing input. When \<^verbatim>\<open>fetch\<close> rejects, \<^verbatim>\<open>handleToggleChecklistItem\<close> puts
  the note before the call back (its \<^verbatim>\<open>.catch\<close> calls \<^verbatim>\<open>onUpdate(note)\<close>), whereas delete,
  edit, reorder and add only log the error: the local note stays the optimistic one and
  differs from the note before the call.
\<close>

theorem thrown_fetch_without_rollback:
  "local_state note_ab (handleToggleChecklistItem note_ab True ''a'' Rejects) = note_ab
   \<and> local_state note_ab (handleDeleteChecklistItem note_ab True ''a'' Rejects)
       = note_ab\<lparr>checklistItems := Some [item_b]\<rparr>
   \<and> local_state note_ab (handleDeleteChecklistItem note_ab True ''a'' Rejects) \<noteq> note_ab
   \<and> local_state note_ab (handleEditChecklistItem note_ab True ''a'' ''w'' Rejects)
       = note_ab\<lparr>checklistItems := Some [item_a\<lparr>content := ''w''\<rparr>, item_b]\<rparr>
   \<and> local_state note_ab (handleEditChecklistItem note_ab True ''a'' ''w'' Rejects) \<noteq> note_ab
   \<and> local_state note_ab (handleReorderChecklistItems note_ab True env0 ''n1'' [item_b, item_a] Rejects)
       = note_ab\<lparr>checklistItems := Some [item_b\<lparr>order := 0\<rparr>, item_a\<lparr>order := 1\<rparr>]\<rparr>
   \<and> local_state note_ab (handleReorderChecklistItems note_ab True env0 ''n1'' [item_b, item_a] Rejects)
       \<noteq> note_ab
   \<and> local_state note_ab (handleAddChecklistItem note_ab True env0 ''w'' Rejects)
       = note_ab\<lparr>checklistItems := Some [item_a, item_b,
            \<lparr>item_id = ''item_1735776000000_k3j9x0q2m'', content = ''w'', checked = False,
             order = 2\<rparr>]\<rparr>
   \<and> local_state note_ab (handleAddChecklistItem note_ab True env0 ''w'' Rejects) \<noteq> note_ab"
  by (simp add: handleToggleChecklistItem_def handleDeleteChecklistItem_def
      handleEditChecklistItem_def handleReorderChecklistItems_def handleAddChecklistItem_def
      reorder_rejected_def items_or_empty_def Let_def note_ab_def item_a_def item_b_def env0_def)

section \<open>Backspace on a blank draft\<close>

lemma trim_empty_iff: "trim s = [] \<longleftrightarrow> list_all js_whitespace s"
proof
  assume "list_all js_whitespace s"
  then have d: "dropWhile js_whitespace s = []" by (simp add: list_all_iff)
  show "trim s = []" unfolding trim_def d by simp
next
  assume "trim s = []"
  then have "dropWhile js_whitespace (rev (dropWhile js_whitespace s)) = []"
    by (simp add: trim_def)
  then have all: "\<forall>c \<in> set (dropWhile js_whitespace s). js_whitespace c"
    by (simp add: dropWhile_eq_Nil_conv)
  have "dropWhile js_whitespace s = []"
  proof (cases "dropWhile js_whitespace s")
    case Nil
    then show ?thesis .
  next
    case (Cons c cs)
    then have "\<not> js_whitespace c" using hd_dropWhile [of js_whitespace s] by simp
    moreover from Cons all have "js_whitespace c" by simp
    ultimately show ?thesis by blast
  qed
  then show "list_all js_whitespace s" by (simp add: dropWhile_eq_Nil_conv list_all_iff)
qed

text \<open>
  Claim C8. When the draft \<^verbatim>\<open>editContent\<close> is defined and trims to the empty string (it
  consists of white space only), \<^verbatim>\<open>handleKeyDown\<close> on the key \<^verbatim>\<open>Backspace\<close> calls
  \<^verbatim>\<open>preventDefault\<close> and then \<^verbatim>\<open>onDelete?.(item.id)\<close>, once; it calls neither \<^verbatim>\<open>onEdit\<close>
  nor \<^verbatim>\<open>blur\<close>.
\<close>

theorem backspace_on_blank_draft_deletes:
  assumes "editContent p = Some s" and "trim s = []"
  shows "list_all js_whitespace s
       \<and> handleKeyDown p \<lparr>key = ''Backspace'', shiftKey = sh\<rparr>
           = [PreventDefault, OnDelete (item_id (item p))]
       \<and> count_list (handleKeyDown p \<lparr>key = ''Backspace'', shiftKey = sh\<rparr>)
           (OnDelete (item_id (item p))) = 1
       \<and> (\<forall>i c. OnEdit i c \<notin> set (handleKeyDown p \<lparr>key = ''Backspace'', shiftKey = sh\<rparr>))
       \<and> TargetBlur \<notin> set (handleKeyDown p \<lparr>key = ''Backspace'', shiftKey = sh\<rparr>)"
proof -
  from assms(2) have ws: "list_all js_whitespace s" by (simp add: trim_empty_iff)
  from assms have k: "handleKeyDown p \<lparr>key = ''Backspace'', shiftKey = sh\<rparr>
           = [PreventDefault, OnDelete (item_id (item p))]"
    by (simp add: handleKeyDown_def)
  from ws k show ?thesis by simp
qed

theorem backspace_on_blank_draft_deletes_witness:
  "handleKeyDown \<lparr>item = item_a, isEditing = True, editContent = Some '' '', isNewItem = False,
                   has_onEdit = True, has_onCreateItem = False\<rparr>
     \<lparr>key = ''Backspace'', shiftKey = False\<rparr> = [PreventDefault, OnDelete ''a'']"
proof -
  let ?p = "\<lparr>item = item_a, isEditing = True, editContent = Some '' '', isNewItem = False,
                   has_onEdit = True, has_onCreateItem = False\<rparr>"
  have e: "editContent ?p = Some '' ''" by simp
  have t: "trim '' '' = []" by (simp add: trim_def js_whitespace_def)
  have i: "item_id (item ?p) = ''a''" by (simp add: item_a_def)
  from backspace_on_blank_draft_deletes [OF e t, of False] i show ?thesis by simp
qed

end
